theory Spec2Isabelle
  imports Complex_Main "HOL-Library.AList" "HOL-Library.Sublist"
begin

section \<open>Python values, exceptions and dictionaries\<close>

text \<open>
  The bot is Python. Numbers (percentages, durations, scale factors) are modelled as
  \<open>real\<close>: Python's \<open>int\<close> and \<open>float\<close> embedded in the reals, without the rounding
  of floating point. Integer screen coordinates are \<open>int\<close>. A raised exception is a
  value \<open>Exn cls msg\<close> with the class of the exception and the text of \<open>str(e)\<close>; every
  exception modelled here is an instance of Python's \<open>Exception\<close>, which is what the
  handlers \<open>except Exception\<close> of the source catch; an interrupt from outside
  (KeyboardInterrupt), which can arrive at any point of any function, is not part of
  the model. Console output (\<open>print\<close>) is modelled where \<open>call_nova_with_image\<close> prints in
  its final handler; elsewhere it is not modelled. A function that may raise returns
  \<open>exn + 'a\<close>, with \<open>Inl\<close> for the raise.
\<close>

datatype exn_class =
  ValueError | TypeError | KeyError | IndexError | AttributeError | ZeroDivisionError
  | ImportError | JSONDecodeError | UnicodeEncodeError | CvError | OtherException

datatype exn = Exn exn_class string

fun exn_class_of :: "exn \<Rightarrow> exn_class" where
  "exn_class_of (Exn c m) = c"

fun str_exn :: "exn \<Rightarrow> string" where
  "str_exn (Exn c m) = m"

definition bind_exn :: "exn + 'a \<Rightarrow> ('a \<Rightarrow> exn + 'b) \<Rightarrow> exn + 'b" where
  "bind_exn m f = (case m of Inl e \<Rightarrow> Inl e | Inr v \<Rightarrow> f v)"

text \<open>
  The values that \<open>json.loads\<close> produces and that the dictionaries of the bot hold.
  \<open>JFloat\<close> is a finite float; \<open>JNaN\<close>, \<open>JInfinity\<close> and \<open>JNegInfinity\<close> are the floats nan,
  inf and -inf, which \<open>json.loads\<close> returns for the texts NaN, Infinity and -Infinity.
\<close>

datatype json =
  JNull | JBool bool | JInt int | JFloat real | JStr string | JArr "json list"
  | JObj "(string \<times> json) list" | JNaN | JInfinity | JNegInfinity

text \<open>\<open>type(v).__name__\<close>, \<open>repr(s)\<close> of a string, the finite number a value stands for in
  a comparison (\<open>bool\<close> is a subclass of \<open>int\<close>), and the truth value of \<open>if v\<close>.\<close>

fun type_name :: "json \<Rightarrow> string" where
  "type_name JNull = ''NoneType''"
| "type_name (JBool b) = ''bool''"
| "type_name (JInt i) = ''int''"
| "type_name (JFloat r) = ''float''"
| "type_name (JStr s) = ''str''"
| "type_name (JArr xs) = ''list''"
| "type_name (JObj d) = ''dict''"
| "type_name JNaN = ''float''"
| "type_name JInfinity = ''float''"
| "type_name JNegInfinity = ''float''"

definition repr_str :: "string \<Rightarrow> string" where
  "repr_str s = CHR 0x27 # s @ [CHR 0x27]"

fun num_of :: "json \<Rightarrow> real option" where
  "num_of (JBool b) = Some (if b then 1 else 0)"
| "num_of (JInt i) = Some (real_of_int i)"
| "num_of (JFloat r) = Some r"
| "num_of v = None"

fun truthy :: "json \<Rightarrow> bool" where
  "truthy JNull = False"
| "truthy (JBool b) = b"
| "truthy (JInt i) = (i \<noteq> 0)"
| "truthy (JFloat r) = (r \<noteq> 0)"
| "truthy (JStr s) = (s \<noteq> [])"
| "truthy (JArr xs) = (xs \<noteq> [])"
| "truthy (JObj d) = (d \<noteq> [])"
| "truthy JNaN = True"
| "truthy JInfinity = True"
| "truthy JNegInfinity = True"

text \<open>
  A Python \<open>dict\<close> is an association list with distinct keys, in insertion order.
  \<open>d.get(k, default)\<close>, \<open>d[k]\<close> (KeyError when absent) and \<open>d[k] = v\<close>.
\<close>

definition dict_get :: "('k \<times> 'v) list \<Rightarrow> 'k \<Rightarrow> 'v \<Rightarrow> 'v" where
  "dict_get d k dflt = (case map_of d k of None \<Rightarrow> dflt | Some v \<Rightarrow> v)"

definition dict_getitem :: "(string \<times> 'v) list \<Rightarrow> string \<Rightarrow> exn + 'v" where
  "dict_getitem d k = (case map_of d k of None \<Rightarrow> Inl (Exn KeyError (repr_str k)) | Some v \<Rightarrow> Inr v)"

definition dict_set :: "('k \<times> 'v) list \<Rightarrow> 'k \<Rightarrow> 'v \<Rightarrow> ('k \<times> 'v) list" where
  "dict_set d k v = AList.update k v d"

text \<open>\<open>str(n)\<close> for an integer, used in the f-strings of the error messages.\<close>

definition digit_char :: "nat \<Rightarrow> char" where
  "digit_char d = char_of (48 + d)"

function str_nat :: "nat \<Rightarrow> string" where
  "str_nat n = (if n < 10 then [digit_char n] else str_nat (n div 10) @ [digit_char (n mod 10)])"
  by pat_completeness auto
termination
  by (relation "measure id") auto

declare str_nat.simps [simp del]

definition str_int :: "int \<Rightarrow> string" where
  "str_int i = (if i < 0 then CHR ''-'' # str_nat (nat (- i)) else str_nat (nat i))"

text \<open>\<open>int(r)\<close> for a float \<open>r\<close>: truncation towards zero.\<close>

definition py_int :: "real \<Rightarrow> int" where
  "py_int r = (if 0 \<le> r then \<lfloor>r\<rfloor> else \<lceil>r\<rceil>)"

text \<open>
  A slice \<open>xs[a:b]\<close>: a negative bound counts from the end, and both bounds are clipped
  to the length of the list.
\<close>

definition slice_index :: "int \<Rightarrow> nat \<Rightarrow> nat" where
  "slice_index i n =
     (if i < 0 then (if i + int n < 0 then 0 else nat (i + int n))
      else (if int n < i then n else nat i))"

definition py_slice :: "'a list \<Rightarrow> int \<Rightarrow> int \<Rightarrow> 'a list" where
  "py_slice xs a b =
     (let s = slice_index a (length xs); e = slice_index b (length xs)
      in take (e - s) (drop s xs))"


section \<open>game_state.py: the game state monitor\<close>

text \<open>
  An image is a NumPy array of shape (rows, columns, 3) of 8-bit channels: a list of
  rows of pixels. A region is \<open>(x, y, width, height)\<close>; a colour range is a pair of
  lower and upper HSV bounds.
\<close>

type_synonym pixel = "nat \<times> nat \<times> nat"
type_synonym image = "pixel list list"
type_synonym region = "int \<times> int \<times> int \<times> int"
type_synonym color_range = "pixel \<times> pixel"

record monitor =
  ui_regions :: "(string \<times> region) list"
  color_ranges :: "(string \<times> color_range) list"
  last_endurance :: "real option"

text \<open>\<open>GameStateMonitor.__init__\<close>: the attribute \<open>last_endurance\<close> does not exist yet.\<close>

definition GameStateMonitor_init :: monitor where
  "GameStateMonitor_init =
     \<lparr> ui_regions =
         [(''health_bar'', (50, 50, 200, 20)),
          (''endurance_bar'', (50, 80, 200, 20)),
          (''experience_bar'', (50, 110, 300, 15)),
          (''chat_area'', (10, 400, 500, 200)),
          (''target_info'', (600, 50, 200, 100))],
       color_ranges =
         [(''health_red'', ((0, 120, 70), (10, 255, 255))),
          (''health_green'', ((40, 120, 70), (80, 255, 255))),
          (''endurance_blue'', ((100, 120, 70), (130, 255, 255))),
          (''experience_yellow'', ((20, 120, 70), (30, 255, 255)))],
       last_endurance = None \<rparr>"

subsection \<open>The OpenCV operations that \<open>extract_bar_percentage\<close> calls\<close>

text \<open>
  \<open>image[y:y+height, x:x+width]\<close> slices the rows, then the columns of each row.
\<close>

definition crop :: "image \<Rightarrow> int \<Rightarrow> int \<Rightarrow> int \<Rightarrow> int \<Rightarrow> image" where
  "crop img x y width height =
     map (\<lambda>row. py_slice row x (x + width)) (py_slice img y (y + height))"

text \<open>
  \<open>cv2.cvtColor(bar_image, cv2.COLOR_BGR2HSV)\<close> converts each pixel on its own; the
  conversion of one pixel is the parameter \<open>bgr2hsv\<close>. OpenCV asserts that its input is
  not empty and raises \<open>cv2.error\<close> on an array without elements.
\<close>

definition cvtColor :: "(pixel \<Rightarrow> pixel) \<Rightarrow> image \<Rightarrow> exn + image" where
  "cvtColor bgr2hsv img =
     (if concat img = [] then Inl (Exn CvError ''(-215:Assertion failed) !_src.empty() in function cvtColor'')
      else Inr (map (map bgr2hsv) img))"

text \<open>\<open>cv2.inRange\<close>: 255 where every channel lies within the bounds (inclusive), else 0.\<close>

definition inRange :: "image \<Rightarrow> pixel \<Rightarrow> pixel \<Rightarrow> nat list list" where
  "inRange hsv lower upper =
     map (map (\<lambda>(h, s, v).
        case lower of (lh, ls, lv) \<Rightarrow> case upper of (uh, us, uv) \<Rightarrow>
          if lh \<le> h \<and> h \<le> uh \<and> ls \<le> s \<and> s \<le> us \<and> lv \<le> v \<and> v \<le> uv then 255 else 0)) hsv"

definition countNonZero :: "nat list list \<Rightarrow> nat" where
  "countNonZero msk = length (filter (\<lambda>m. m \<noteq> 0) (concat msk))"

subsection \<open>\<open>extract_bar_percentage\<close>, \<open>get_health_percentage\<close>\<close>

definition extract_bar_percentage ::
  "(pixel \<Rightarrow> pixel) \<Rightarrow> image \<Rightarrow> color_range \<Rightarrow> region \<Rightarrow> exn + real" where
  "extract_bar_percentage bgr2hsv img color_range bar_region =
     (case bar_region of (x, y, width, height) \<Rightarrow>
        let bar_image = crop img x y width height in
        bind_exn (cvtColor bgr2hsv bar_image) (\<lambda>hsv.
          case color_range of (lower, upper) \<Rightarrow>
            let msk = inRange hsv lower upper;
                total_pixels = width * height;
                filled_pixels = countNonZero msk
            in if total_pixels > 0
               then (let percentage = (real filled_pixels / real_of_int total_pixels) * 100
                     in Inr (min 100 (max 0 percentage)))
               else Inr 0))"

text \<open>
  \<open>get_health_percentage\<close>: \<open>screenshot\<close> is what \<open>self.take_screenshot()\<close> returned, the
  one capture that both extractions read.
\<close>

definition get_health_percentage :: "(pixel \<Rightarrow> pixel) \<Rightarrow> image \<Rightarrow> monitor \<Rightarrow> exn + real" where
  "get_health_percentage bgr2hsv screenshot m =
     bind_exn (dict_getitem (ui_regions m) ''health_bar'') (\<lambda>health_region.
     bind_exn (dict_getitem (color_ranges m) ''health_green'') (\<lambda>green_range.
     bind_exn (extract_bar_percentage bgr2hsv screenshot green_range health_region) (\<lambda>green_health.
     bind_exn (dict_getitem (color_ranges m) ''health_red'') (\<lambda>red_range.
     bind_exn (extract_bar_percentage bgr2hsv screenshot red_range health_region) (\<lambda>red_health.
     Inr (max green_health red_health))))))"

subsection \<open>\<open>detect_combat_state\<close>\<close>

text \<open>
  \<open>detect_combat_state\<close>: \<open>endurance\<close> is \<open>stats['endurance']\<close> of the statistics that
  \<open>self.get_player_stats()\<close> returned in this call. \<open>hasattr(self, 'last_endurance')\<close> is
  \<open>last_endurance m \<noteq> None\<close>. The branch that returns \<open>True\<close> leaves the method before
  the assignment to \<open>self.last_endurance\<close>.
\<close>

definition detect_combat_state :: "real \<Rightarrow> monitor \<Rightarrow> bool \<times> monitor" where
  "detect_combat_state endurance m =
     (case last_endurance m of
        Some self_last_endurance \<Rightarrow>
          (let endurance_change = self_last_endurance - endurance
           in if endurance_change > 5 then (True, m)
              else (False, m\<lparr>last_endurance := Some endurance\<rparr>))
      | None \<Rightarrow> (False, m\<lparr>last_endurance := Some endurance\<rparr>))"

text \<open>Successive invocations on one monitor, one observed endurance per call.\<close>

fun detect_combat_calls :: "real list \<Rightarrow> monitor \<Rightarrow> bool list" where
  "detect_combat_calls [] m = []"
| "detect_combat_calls (e # es) m =
     (case detect_combat_state e m of (r, m') \<Rightarrow> r # detect_combat_calls es m')"

subsection \<open>\<open>calibrate_ui_regions\<close>\<close>

definition calibrate_ui_regions :: "real \<times> real \<Rightarrow> monitor \<Rightarrow> monitor" where
  "calibrate_ui_regions resolution m =
     (let scale_x = fst resolution / 1920;
          scale_y = snd resolution / 1080;
          calibrated_regions =
            map (\<lambda>(name, (x, y, width, height)).
                   (name, (py_int (real_of_int x * scale_x),
                           py_int (real_of_int y * scale_y),
                           py_int (real_of_int width * scale_x),
                           py_int (real_of_int height * scale_y))))
                (ui_regions m)
      in m\<lparr>ui_regions := calibrated_regions\<rparr>)"

text \<open>Halving with truncation towards zero, the words of the specification.\<close>

definition halve :: "int \<Rightarrow> int" where
  "halve x = (if 0 \<le> x then x div 2 else - ((- x) div 2))"

definition halve_region :: "region \<Rightarrow> region" where
  "halve_region r = (case r of (x, y, width, height) \<Rightarrow> (halve x, halve y, halve width, halve height))"


section \<open>Input effects\<close>

text \<open>
  What the controllers do to the keyboard and the clock is a trace of events, in the
  order of the calls to \<open>pyautogui.keyDown\<close>, \<open>keyUp\<close>, \<open>press\<close> and \<open>time.sleep\<close>. A
  computation returns its result, or the exception it raised, with the events issued
  up to that point. \<open>time.sleep\<close> raises ValueError on a negative duration; the three
  keyboard calls are taken to succeed.
\<close>

datatype event = KeyDown string | KeyUp string | Press string | Sleep real

type_synonym 'a io = "(exn + 'a) \<times> event list"

definition ret :: "'a \<Rightarrow> 'a io" where
  "ret a = (Inr a, [])"

definition raise :: "exn \<Rightarrow> 'a io" where
  "raise e = (Inl e, [])"

definition emit :: "event \<Rightarrow> unit io" where
  "emit ev = (Inr (), [ev])"

definition io_bind :: "'a io \<Rightarrow> ('a \<Rightarrow> 'b io) \<Rightarrow> 'b io" where
  "io_bind m f =
     (case m of
        (Inl e, t) \<Rightarrow> (Inl e, t)
      | (Inr a, t) \<Rightarrow> (case f a of (r, t') \<Rightarrow> (r, t @ t')))"

definition io_then :: "'a io \<Rightarrow> 'b io \<Rightarrow> 'b io" where
  "io_then m n = io_bind m (\<lambda>_. n)"

text \<open>\<open>try: body except Exception as e: handler\<close>.\<close>

definition try_except :: "'a io \<Rightarrow> (exn \<Rightarrow> 'a io) \<Rightarrow> 'a io" where
  "try_except body handler =
     (case body of
        (Inl e, t) \<Rightarrow> (case handler e of (r, t') \<Rightarrow> (r, t @ t'))
      | (Inr a, t) \<Rightarrow> (Inr a, t))"

text \<open>\<open>for _ in range(n): body\<close>.\<close>

fun io_repeat :: "nat \<Rightarrow> unit io \<Rightarrow> unit io" where
  "io_repeat 0 body = ret ()"
| "io_repeat (Suc n) body = io_then body (io_repeat n body)"

definition time_sleep :: "real \<Rightarrow> unit io" where
  "time_sleep d =
     (if d < 0 then raise (Exn ValueError ''sleep length must be non-negative'')
      else emit (Sleep d))"

definition lookup_io :: "(string \<times> 'v) list \<Rightarrow> string \<Rightarrow> 'v io" where
  "lookup_io d k = (dict_getitem d k, [])"


section \<open>player_movement.py: the movement controller\<close>

record movement_controller =
  keys :: "(string \<times> string) list"

definition MovementController_init :: movement_controller where
  "MovementController_init =
     \<lparr> keys =
         [(''forward'', ''w''), (''backward'', ''s''), (''strafe_left'', ''a''),
          (''strafe_right'', ''d''), (''turn_left'', ''q''), (''turn_right'', ''e''),
          (''jump'', ''space''), (''sprint'', ''r''), (''fly'', ''f'')] \<rparr>"

text \<open>
  The body shared by the six movement methods:
  \<open>keyDown(self.keys[name]); time.sleep(duration); keyUp(self.keys[name])\<close>.
\<close>

definition hold_key :: "movement_controller \<Rightarrow> string \<Rightarrow> real \<Rightarrow> unit io" where
  "hold_key c name duration =
     io_bind (lookup_io (keys c) name) (\<lambda>k.
     io_then (emit (KeyDown k))
    (io_then (time_sleep duration)
    (io_bind (lookup_io (keys c) name) (\<lambda>k'. emit (KeyUp k')))))"

definition move_forward :: "movement_controller \<Rightarrow> real \<Rightarrow> unit io" where
  "move_forward c duration = hold_key c ''forward'' duration"

definition move_backward :: "movement_controller \<Rightarrow> real \<Rightarrow> unit io" where
  "move_backward c duration = hold_key c ''backward'' duration"

definition strafe_left :: "movement_controller \<Rightarrow> real \<Rightarrow> unit io" where
  "strafe_left c duration = hold_key c ''strafe_left'' duration"

definition strafe_right :: "movement_controller \<Rightarrow> real \<Rightarrow> unit io" where
  "strafe_right c duration = hold_key c ''strafe_right'' duration"

definition turn_left :: "movement_controller \<Rightarrow> real \<Rightarrow> unit io" where
  "turn_left c angle = (let duration = angle / 180 in hold_key c ''turn_left'' duration)"

definition turn_right :: "movement_controller \<Rightarrow> real \<Rightarrow> unit io" where
  "turn_right c angle = (let duration = angle / 180 in hold_key c ''turn_right'' duration)"

text \<open>\<open>circle_strafe_target\<close>: the division by \<open>steps\<close> raises when \<open>steps\<close> is 0.\<close>

definition circle_strafe_target :: "movement_controller \<Rightarrow> real \<Rightarrow> real \<Rightarrow> bool \<Rightarrow> unit io" where
  "circle_strafe_target c radius duration clockwise =
     (let steps = py_int (duration * 10) in
      if steps = 0 then raise (Exn ZeroDivisionError ''float division by zero'')
      else
        let step_duration = duration / real_of_int steps;
            turn_angle = 360 / real_of_int steps
        in io_repeat (nat steps)
             (io_then (move_forward c (step_duration * 0.3))
             (io_then (if clockwise
                       then io_then (strafe_right c (step_duration * 0.4)) (turn_right c turn_angle)
                       else io_then (strafe_left c (step_duration * 0.4)) (turn_left c turn_angle))
                      (time_sleep (step_duration * 0.3)))))"


section \<open>player_attacks.py: the attack controller\<close>

record attack_controller =
  hotkeys :: "(int \<times> string) list"
  attack_chains :: "(string \<times> (int \<times> real) list) list"
  ability_timings :: "(int \<times> real) list"

definition AttackController_init :: attack_controller where
  "AttackController_init =
     \<lparr> hotkeys =
         [(1, ''1''), (2, ''2''), (3, ''3''), (4, ''4''), (5, ''5''),
          (6, ''6''), (7, ''7''), (8, ''8''), (9, ''9'')],
       attack_chains =
         [(''basic_combo'', [(1, 1.2), (2, 1.5), (3, 2.0)]),
          (''power_combo'', [(4, 2.0), (5, 2.5), (6, 3.0)]),
          (''aoe_combo'', [(7, 2.5), (8, 3.0), (9, 1.0)]),
          (''quick_strike'', [(1, 0.8), (2, 0.8)]),
          (''heavy_attack'', [(6, 3.5)]),
          (''defensive'', [(5, 2.0), (3, 1.5)]),
          (''ranged_combo'', [(2, 1.0), (4, 1.5), (7, 2.0)]),
          (''melee_combo'', [(1, 1.2), (3, 1.8), (5, 2.2)])],
       ability_timings =
         [(1, 1.2), (2, 1.0), (3, 1.8), (4, 1.5), (5, 2.2),
          (6, 3.5), (7, 2.5), (8, 3.0), (9, 1.0)] \<rparr>"

definition use_ability :: "attack_controller \<Rightarrow> int \<Rightarrow> bool \<Rightarrow> unit io" where
  "use_ability c ability_number wait_for_animation =
     (case map_of (hotkeys c) ability_number of
        None \<Rightarrow> raise (Exn ValueError (''Invalid ability number: '' @ str_int ability_number))
      | Some key \<Rightarrow>
          io_then (emit (Press key))
            (if wait_for_animation
             then (let wait_time = dict_get (ability_timings c) ability_number 1.5
                   in time_sleep wait_time)
             else ret ()))"

text \<open>
  The loop of \<open>execute_attack_chain\<close> over the rest of the chain. \<open>interrupt\<close> is \<open>None\<close>
  for \<open>interrupt_on_low_health=False\<close>; for \<open>True\<close> it holds the outcome of the health
  check before the step with a given index: the health read, or the exception of the
  attempt. An ImportError is passed over; below 20 the loop breaks.
\<close>

fun attack_chain_loop ::
  "attack_controller \<Rightarrow> (nat \<Rightarrow> exn + real) option \<Rightarrow> nat \<Rightarrow> (int \<times> real) list \<Rightarrow> unit io" where
  "attack_chain_loop c interrupt i [] = ret ()"
| "attack_chain_loop c interrupt i ((ability_key, wait_time) # rest) =
     (let step = io_then (use_ability c ability_key False)
                (io_then (time_sleep wait_time)
                         (attack_chain_loop c interrupt (Suc i) rest))
      in case interrupt of
           None \<Rightarrow> step
         | Some health_check \<Rightarrow>
             (case health_check i of
                Inl e \<Rightarrow> if exn_class_of e = ImportError then step else raise e
              | Inr health \<Rightarrow> if health < 20 then ret () else step))"

definition execute_attack_chain ::
  "attack_controller \<Rightarrow> string \<Rightarrow> (nat \<Rightarrow> exn + real) option \<Rightarrow> unit io" where
  "execute_attack_chain c chain_name interrupt =
     (case map_of (attack_chains c) chain_name of
        None \<Rightarrow> raise (Exn ValueError (''Unknown attack chain: '' @ chain_name))
      | Some chain \<Rightarrow> attack_chain_loop c interrupt 0 chain)"

definition add_custom_chain ::
  "attack_controller \<Rightarrow> string \<Rightarrow> (int \<times> real) list \<Rightarrow> attack_controller" where
  "add_custom_chain c name chain = c\<lparr>attack_chains := dict_set (attack_chains c) name chain\<rparr>"

text \<open>The key events of a chain run to its end, one press and one wait per step.\<close>

definition chain_events :: "attack_controller \<Rightarrow> (int \<times> real) list \<Rightarrow> event list" where
  "chain_events c chain =
     concat (map (\<lambda>(ability_key, wait_time).
       [Press (dict_get (hotkeys c) ability_key []), Sleep wait_time]) chain)"

text \<open>
  A step of a chain is well formed when its ability slot is one of the configured
  hotkeys and its wait is a duration, not negative.
\<close>

definition well_formed_step :: "attack_controller \<Rightarrow> int \<times> real \<Rightarrow> bool" where
  "well_formed_step c step = (case step of (ability_key, wait_time) \<Rightarrow>
     map_of (hotkeys c) ability_key \<noteq> None \<and> 0 \<le> wait_time)"

text \<open>
  The health check before the step with index \<open>i\<close> lets the step run when the check is
  off, when it reads a health of 20 or more, or when it fails with ImportError; it stops
  the chain when it reads a health below 20.
\<close>

definition check_passes :: "(nat \<Rightarrow> exn + real) option \<Rightarrow> nat \<Rightarrow> bool" where
  "check_passes interrupt i =
     (case interrupt of
        None \<Rightarrow> True
      | Some health_check \<Rightarrow>
          (case health_check i of
             Inl e \<Rightarrow> exn_class_of e = ImportError
           | Inr health \<Rightarrow> \<not> health < 20))"

definition check_stops :: "(nat \<Rightarrow> exn + real) option \<Rightarrow> nat \<Rightarrow> bool" where
  "check_stops interrupt i =
     (case interrupt of
        None \<Rightarrow> False
      | Some health_check \<Rightarrow>
          (case health_check i of
             Inl e \<Rightarrow> False
           | Inr health \<Rightarrow> health < 20))"


section \<open>llm_integrations.py: the decision engine and the dispatcher\<close>

subsection \<open>Subscripting and item assignment on parsed JSON\<close>

definition not_subscriptable :: "json \<Rightarrow> exn" where
  "not_subscriptable v = Exn TypeError (repr_str (type_name v) @ '' object is not subscriptable'')"

text \<open>\<open>v[key]\<close> for a string key and \<open>v[i]\<close> for an integer index.\<close>

fun getitem_str :: "json \<Rightarrow> string \<Rightarrow> exn + json" where
  "getitem_str (JObj d) key = dict_getitem d key"
| "getitem_str (JArr xs) key = Inl (Exn TypeError ''list indices must be integers or slices, not str'')"
| "getitem_str (JStr s) key = Inl (Exn TypeError ''string indices must be integers, not str'')"
| "getitem_str v key = Inl (not_subscriptable v)"

fun getitem_int :: "json \<Rightarrow> int \<Rightarrow> exn + json" where
  "getitem_int (JObj d) i = Inl (Exn KeyError (str_int i))"
| "getitem_int (JArr xs) i =
     (let j = (if i < 0 then i + int (length xs) else i)
      in if 0 \<le> j \<and> j < int (length xs) then Inr (xs ! nat j)
         else Inl (Exn IndexError ''list index out of range''))"
| "getitem_int (JStr s) i =
     (let j = (if i < 0 then i + int (length s) else i)
      in if 0 \<le> j \<and> j < int (length s) then Inr (JStr [s ! nat j])
         else Inl (Exn IndexError ''string index out of range''))"
| "getitem_int v i = Inl (not_subscriptable v)"

text \<open>\<open>v[key] = value\<close> for a string key.\<close>

fun setitem_str :: "json \<Rightarrow> string \<Rightarrow> json \<Rightarrow> exn + json" where
  "setitem_str (JObj d) key value = Inr (JObj (dict_set d key value))"
| "setitem_str (JArr xs) key value = Inl (Exn TypeError ''list indices must be integers or slices, not str'')"
| "setitem_str v key value =
     Inl (Exn TypeError (repr_str (type_name v) @ '' object does not support item assignment''))"

subsection \<open>The remote model and \<open>call_nova_with_image\<close>\<close>

text \<open>
  The collaborators outside the repository. \<open>invoke_model env prompt image\<close> is the
  outcome of \<open>self.bedrock_client.invoke_model(...)\<close> followed by
  \<open>response['body'].read()\<close> for a request with that prompt and that optional image:
  the exception raised, or the text of the response body. \<open>json_loads env s\<close> is
  \<open>json.loads(s)\<close> for a string \<open>s\<close>: the exception raised (JSONDecodeError for text
  that is not JSON) or the parsed value. \<open>format_prompt env scenario stats\<close> is the text
  \<open>self.decision_prompts[scenario].format(game_state=json.dumps(stats, indent=2))\<close>.
  \<open>console env s\<close> is \<open>print(s)\<close>: \<open>None\<close> when the line is written, the exception when
  the write raises (UnicodeEncodeError for a text that the encoding of the console
  cannot express).
\<close>

record environment =
  invoke_model :: "string \<Rightarrow> string option \<Rightarrow> exn + string"
  json_loads :: "string \<Rightarrow> exn + json"
  format_prompt :: "string \<Rightarrow> (string \<times> json) list \<Rightarrow> string"
  console :: "string \<Rightarrow> exn option"

text \<open>\<open>json.loads(v)\<close> for a value of any type: only text can be parsed.\<close>

definition loads_value :: "environment \<Rightarrow> json \<Rightarrow> exn + json" where
  "loads_value env v =
     (case v of
        JStr s \<Rightarrow> json_loads env s
      | _ \<Rightarrow> Inl (Exn TypeError (''the JSON object must be str, bytes or bytearray, not '' @ type_name v)))"

text \<open>The image is added to the content only when \<open>image_data\<close> is true: not None, not empty.\<close>

definition content_image :: "string option \<Rightarrow> string option" where
  "content_image image_data =
     (case image_data of None \<Rightarrow> None | Some d \<Rightarrow> if d = [] then None else Some d)"

text \<open>
  Lines 107 to 114: the invocation, and
  \<open>json.loads(response['body'].read())["output"]["message"]["content"][0]["text"]\<close>.
\<close>

definition response_text :: "environment \<Rightarrow> string \<Rightarrow> string option \<Rightarrow> exn + json" where
  "response_text env prompt image_data =
     bind_exn (invoke_model env prompt (content_image image_data)) (\<lambda>body.
     bind_exn (json_loads env body) (\<lambda>response.
     bind_exn (getitem_str response ''output'') (\<lambda>output.
     bind_exn (getitem_str output ''message'') (\<lambda>message.
     bind_exn (getitem_str message ''content'') (\<lambda>content.
     bind_exn (getitem_int content 0) (\<lambda>first.
     getitem_str first ''text''))))))"

definition parse_failure_decision :: json where
  "parse_failure_decision =
     JObj [(''action'', JStr ''rest''), (''reason'', JStr ''Failed to parse AI response'')]"

definition api_error_decision :: "exn \<Rightarrow> json" where
  "api_error_decision e =
     JObj [(''action'', JStr ''rest''), (''reason'', JStr (''API error: '' @ str_exn e))]"

text \<open>
  \<open>call_nova_with_image\<close>: the inner handler catches \<open>json.JSONDecodeError\<close> only, the
  outer one any \<open>Exception\<close> raised inside the \<open>try\<close>. The outer handler first prints
  \<open>f"Nova API error: {e}"\<close>; an exception of that \<open>print\<close> is caught by nothing and leaves
  the function.
\<close>

definition call_nova_with_image :: "environment \<Rightarrow> string \<Rightarrow> string option \<Rightarrow> exn + json" where
  "call_nova_with_image env prompt image_data =
     (case bind_exn (response_text env prompt image_data) (\<lambda>text.
             case loads_value env text of
               Inr decision \<Rightarrow> Inr decision
             | Inl e \<Rightarrow> if exn_class_of e = JSONDecodeError then Inr parse_failure_decision
                        else Inl e)
      of Inr decision \<Rightarrow> Inr decision
       | Inl e \<Rightarrow>
           (case console env (''Nova API error: '' @ str_exn e) of
              Some print_error \<Rightarrow> Inl print_error
            | None \<Rightarrow> Inr (api_error_decision e)))"

subsection \<open>\<open>analyze_game_state\<close>\<close>

text \<open>
  \<open>v < bound\<close> for a finite number \<open>bound\<close>: nan is less than nothing, inf is not less
  and -inf is less than every finite number; TypeError unless \<open>v\<close> is a number.
\<close>

definition py_less :: "json \<Rightarrow> real \<Rightarrow> exn + bool" where
  "py_less v bound =
     (case v of
        JNaN \<Rightarrow> Inr False
      | JInfinity \<Rightarrow> Inr False
      | JNegInfinity \<Rightarrow> Inr True
      | _ \<Rightarrow>
         (case num_of v of
            Some r \<Rightarrow> Inr (r < bound)
          | None \<Rightarrow> Inl (Exn TypeError (''< not supported between instances of '' @
                      repr_str (type_name v) @ '' and '' @ repr_str ''int''))))"

definition analyze_game_state :: "(string \<times> json) list \<Rightarrow> exn + string" where
  "analyze_game_state stats =
     (let health = dict_get stats ''health'' (JInt 100);
          endurance = dict_get stats ''endurance'' (JInt 100);
          in_combat = dict_get stats ''in_combat'' (JBool False);
          enemy_targeted = dict_get stats ''enemy_targeted'' (JBool False)
      in bind_exn (py_less health 30) (\<lambda>low_health.
         if low_health then Inr ''recovery''
         else bind_exn (py_less endurance 20) (\<lambda>low_endurance.
           if low_endurance then Inr ''recovery''
           else if truthy in_combat \<or> truthy enemy_targeted then Inr ''combat''
           else Inr ''exploration'')))"

subsection \<open>\<open>make_gameplay_decision\<close>\<close>

text \<open>
  \<open>self.decision_prompts\<close>: each prompt is held as the action names that it lists under
  "Available Actions" (the allowed action set of its scenario); its wording is
  rendered by \<open>format_prompt\<close>.
\<close>

definition decision_prompts :: "(string \<times> string list) list" where
  "decision_prompts =
     [(''combat'', [''attack'', ''power_combo'', ''aoe_combo'', ''retreat'', ''rest'',
                    ''move_forward'', ''circle_strafe'']),
      (''exploration'', [''move_forward'', ''turn_left'', ''turn_right'', ''patrol'', ''rest'',
                         ''search_enemies'']),
      (''recovery'', [''rest'', ''retreat'', ''find_cover'', ''wait''])]"

text \<open>
  What one call of \<open>make_gameplay_decision\<close> reads from the screen and the clock:
  the dictionary that \<open>get_player_stats()\<close> returns, the endurance that
  \<open>detect_combat_state()\<close> samples, the result of \<open>detect_enemy_target()\<close>, the result
  of \<open>get_screenshot_data()\<close> and \<open>time.time()\<close>.
\<close>

record observation =
  player_stats :: "(string \<times> json) list"
  combat_endurance :: real
  enemy_target :: bool
  screenshot_data :: "string option"
  now :: real

text \<open>Lines 156 to 158: the statistics with the two flags stored under their keys.\<close>

definition cycle_stats :: "observation \<Rightarrow> monitor \<Rightarrow> (string \<times> json) list" where
  "cycle_stats obs m =
     (let stats = player_stats obs;
          stats = dict_set stats ''in_combat'' (JBool (fst (detect_combat_state (combat_endurance obs) m)));
          stats = dict_set stats ''enemy_targeted'' (JBool (enemy_target obs))
      in stats)"

definition make_gameplay_decision ::
  "environment \<Rightarrow> observation \<Rightarrow> monitor \<Rightarrow> (exn + json) \<times> monitor" where
  "make_gameplay_decision env obs m =
     (let stats = cycle_stats obs m;
          m' = snd (detect_combat_state (combat_endurance obs) m)
      in (bind_exn (analyze_game_state stats) (\<lambda>scenario.
            bind_exn (dict_getitem decision_prompts scenario) (\<lambda>prompt_template.
            let prompt = format_prompt env scenario stats in
            bind_exn (call_nova_with_image env prompt (screenshot_data obs)) (\<lambda>decision.
            bind_exn (setitem_str decision ''scenario'' (JStr scenario)) (\<lambda>d1.
            bind_exn (setitem_str d1 ''game_state'' (JObj stats)) (\<lambda>d2.
            setitem_str d2 ''timestamp'' (JFloat (now obs))))))), m'))"

text \<open>The action of a decision: \<open>decision['action']\<close> when the decision is a dictionary with that key.\<close>

definition action_of :: "json \<Rightarrow> json option" where
  "action_of decision = (case decision of JObj d \<Rightarrow> map_of d ''action'' | _ \<Rightarrow> None)"

definition scenario_of :: "json \<Rightarrow> json option" where
  "scenario_of decision = (case decision of JObj d \<Rightarrow> map_of d ''scenario'' | _ \<Rightarrow> None)"

definition action_allowed :: "json \<Rightarrow> bool" where
  "action_allowed decision =
     (case (action_of decision, scenario_of decision) of
        (Some (JStr action), Some (JStr scenario)) \<Rightarrow>
           action \<in> set (dict_get decision_prompts scenario [])
      | _ \<Rightarrow> False)"

subsection \<open>\<open>execute_decision\<close>\<close>

text \<open>
  \<open>MovementController\<close> has no method \<open>patrol_area\<close> and \<open>AttackController\<close> has no
  method \<open>target_nearest_enemy\<close>: the two calls raise AttributeError.
\<close>

definition no_attribute :: "string \<Rightarrow> string \<Rightarrow> exn" where
  "no_attribute cls attr =
     Exn AttributeError (repr_str cls @ '' object has no attribute '' @ repr_str attr)"

definition execute_decision :: "(string \<times> json) list \<Rightarrow> bool io" where
  "execute_decision decision =
     (let action = dict_get decision ''action'' (JStr ''rest'');
          movement = MovementController_init;
          attacks = AttackController_init
      in try_except
           (if action = JStr ''attack''
              then io_then (execute_attack_chain attacks ''basic_combo'' None) (ret True)
            else if action = JStr ''power_combo''
              then io_then (execute_attack_chain attacks ''power_combo'' None) (ret True)
            else if action = JStr ''aoe_combo''
              then io_then (execute_attack_chain attacks ''aoe_combo'' None) (ret True)
            else if action = JStr ''retreat''
              then io_then (move_backward movement 2.0) (ret True)
            else if action = JStr ''rest''
              then io_then (time_sleep 3.0) (ret True)
            else if action = JStr ''move_forward''
              then io_then (move_forward movement 1.5) (ret True)
            else if action = JStr ''circle_strafe''
              then io_then (circle_strafe_target movement 8 2.0 True) (ret True)
            else if action = JStr ''turn_left''
              then io_then (turn_left movement 45) (ret True)
            else if action = JStr ''turn_right''
              then io_then (turn_right movement 45) (ret True)
            else if action = JStr ''patrol''
              then io_then (raise (no_attribute ''MovementController'' ''patrol_area'') :: unit io) (ret True)
            else if action = JStr ''search_enemies''
              then io_then (raise (no_attribute ''AttackController'' ''target_nearest_enemy'') :: unit io) (ret True)
            else if action = JStr ''find_cover''
              then io_then (move_backward movement 3.0) (ret True)
            else if action = JStr ''wait''
              then io_then (time_sleep 2.0) (ret True)
            else ret False)
           (\<lambda>e. ret False))"

text \<open>The action names that the branches of \<open>execute_decision\<close> test for, in their order.\<close>

definition known_actions :: "string list" where
  "known_actions =
     [''attack'', ''power_combo'', ''aoe_combo'', ''retreat'', ''rest'', ''move_forward'',
      ''circle_strafe'', ''turn_left'', ''turn_right'', ''patrol'', ''search_enemies'',
      ''find_cover'', ''wait'']"


section \<open>Concrete inputs\<close>

text \<open>
  The conversion of the three pixels used below, as OpenCV converts them: pure green
  (BGR 0, 255, 0) is HSV (60, 255, 255), pure red (BGR 0, 0, 255) is HSV (0, 255, 255),
  black stays (0, 0, 0).
\<close>

definition sample_bgr2hsv :: "pixel \<Rightarrow> pixel" where
  "sample_bgr2hsv p =
     (if p = (0, 255, 0) then (60, 255, 255)
      else if p = (0, 0, 255) then (0, 255, 255)
      else (0, 0, 0))"

text \<open>A monitor whose health bar is the strip of \<open>n\<close> pixels at the top left.\<close>

definition strip_monitor :: "int \<Rightarrow> monitor" where
  "strip_monitor n = GameStateMonitor_init\<lparr>ui_regions := [(''health_bar'', (0, 0, n, 1))]\<rparr>"

definition green_strip :: image where
  "green_strip = [[(0, 255, 0), (0, 255, 0), (0, 255, 0), (0, 0, 0)]]"

definition red_strip :: image where
  "red_strip = [[(0, 0, 255), (0, 0, 255), (0, 0, 255), (0, 0, 0), (0, 0, 0)]]"

text \<open>
  A sample of the remote model. The response body that carries a reply text, as JSON
  text and as the value that \<open>json.loads\<close> gives for it.
\<close>

definition json_text_escape :: "string \<Rightarrow> string" where
  "json_text_escape s = concat (map (\<lambda>ch. if ch = CHR 0x22 then [CHR 0x5C, CHR 0x22] else [ch]) s)"

definition response_body :: "string \<Rightarrow> string" where
  "response_body reply =
     ''{'' @ [CHR 0x22] @ ''output'' @ [CHR 0x22] @ '': {'' @ [CHR 0x22] @ ''message'' @ [CHR 0x22] @
     '': {'' @ [CHR 0x22] @ ''content'' @ [CHR 0x22] @ '': [{'' @ [CHR 0x22] @ ''text'' @ [CHR 0x22] @
     '': '' @ [CHR 0x22] @ json_text_escape reply @ [CHR 0x22] @ ''}]}}}''"

definition response_value :: "string \<Rightarrow> json" where
  "response_value reply =
     JObj [(''output'', JObj [(''message'', JObj [(''content'', JArr [JObj [(''text'', JStr reply)]])])])]"

text \<open>A reply that is a JSON object with the action dance, and a sentence that is not JSON.\<close>

definition dance_reply :: string where
  "dance_reply =
     ''{'' @ [CHR 0x22] @ ''action'' @ [CHR 0x22] @ '': '' @ [CHR 0x22] @ ''dance'' @ [CHR 0x22] @
     '', '' @ [CHR 0x22] @ ''reason'' @ [CHR 0x22] @ '': '' @ [CHR 0x22] @ ''morale'' @ [CHR 0x22] @ ''}''"

definition prose_reply :: string where
  "prose_reply = ''I would rest now.''"

text \<open>A reply that is not JSON (JSON has no such literal) and that \<open>json.loads\<close> accepts.\<close>

definition nan_reply :: string where
  "nan_reply = ''NaN''"

text \<open>
  \<open>json.loads\<close> on the texts of the sample: the three response bodies, the reply with the
  action dance and the reply NaN parse; anything else, the sentence among it, is
  rejected with JSONDecodeError.
\<close>

definition sample_loads :: "string \<Rightarrow> exn + json" where
  "sample_loads s =
     (if s = response_body dance_reply then Inr (response_value dance_reply)
      else if s = response_body prose_reply then Inr (response_value prose_reply)
      else if s = response_body nan_reply then Inr (response_value nan_reply)
      else if s = dance_reply then Inr (JObj [(''action'', JStr ''dance''), (''reason'', JStr ''morale'')])
      else if s = nan_reply then Inr JNaN
      else Inl (Exn JSONDecodeError ''Expecting value: line 1 column 1 (char 0)''))"

text \<open>
  A console with the encoding ASCII: \<open>print\<close> raises UnicodeEncodeError on a text with a
  character beyond code 127 and writes any other text.
\<close>

definition ascii_console :: "string \<Rightarrow> exn option" where
  "ascii_console s =
     (if list_ex (\<lambda>ch. 127 < (of_char ch :: nat)) s
      then Some (Exn UnicodeEncodeError ''ascii codec can not encode character: ordinal not in range(128)'')
      else None)"

text \<open>The environment whose invocation has the given outcome, whatever the request.\<close>

definition sample_env :: "exn + string \<Rightarrow> environment" where
  "sample_env outcome =
     \<lparr> invoke_model = (\<lambda>prompt image. outcome),
       json_loads = sample_loads,
       format_prompt = (\<lambda>scenario stats. scenario),
       console = ascii_console \<rparr>"

definition offline_env :: environment where
  "offline_env = sample_env (Inl (Exn OtherException ''Could not connect to the endpoint URL''))"

text \<open>The same environment with a console that writes every text.\<close>

definition unicode_env :: "exn + string \<Rightarrow> environment" where
  "unicode_env outcome = (sample_env outcome)\<lparr>console := (\<lambda>s. None)\<rparr>"

text \<open>A call failure whose message has the letter e with an acute accent, code 233.\<close>

definition accent_failure :: exn where
  "accent_failure = Exn OtherException (''Connexion refus'' @ [CHR 0xE9] @ ''e'')"

text \<open>
  A cycle in which the character is healthy, loses no endurance and has no target, with
  the statistics and the decisions that the code builds from it.
\<close>

definition calm_observation :: observation where
  "calm_observation =
     \<lparr> player_stats = [(''health'', JFloat 80), (''endurance'', JFloat 80),
                        (''experience'', JFloat 10), (''timestamp'', JFloat 1000)],
       combat_endurance = 80,
       enemy_target = False,
       screenshot_data = None,
       now = 1001 \<rparr>"

definition calm_stats :: "(string \<times> json) list" where
  "calm_stats =
     [(''health'', JFloat 80), (''endurance'', JFloat 80), (''experience'', JFloat 10),
      (''timestamp'', JFloat 1000), (''in_combat'', JBool False), (''enemy_targeted'', JBool False)]"

definition dance_decision :: json where
  "dance_decision =
     JObj [(''action'', JStr ''dance''), (''reason'', JStr ''morale''),
           (''scenario'', JStr ''exploration''), (''game_state'', JObj calm_stats),
           (''timestamp'', JFloat 1001)]"

definition offline_decision :: "(string \<times> json) list" where
  "offline_decision =
     [(''action'', JStr ''rest''),
      (''reason'', JStr ''API error: Could not connect to the endpoint URL''),
      (''scenario'', JStr ''exploration''), (''game_state'', JObj calm_stats),
      (''timestamp'', JFloat 1001)]"

text \<open>A statistics dictionary with the four keys that \<open>analyze_game_state\<close> reads.\<close>

definition stats_of :: "json \<Rightarrow> json \<Rightarrow> bool \<Rightarrow> bool \<Rightarrow> (string \<times> json) list" where
  "stats_of h e c t =
     [(''health'', h), (''endurance'', e), (''in_combat'', JBool c), (''enemy_targeted'', JBool t)]"


section \<open>The bar extractor and the health percentage\<close>

lemma crop_zero_area: "width * height = 0 \<Longrightarrow> concat (crop img x y width height) = []"
  by (auto simp: crop_def py_slice_def Let_def)

text \<open>Whenever the extraction returns, the clamp keeps its value between 0 and 100.\<close>

lemma extract_bar_percentage_range:
  "extract_bar_percentage bgr2hsv img cr reg = Inr p \<Longrightarrow> 0 \<le> p \<and> p \<le> 100"
  by (auto simp: extract_bar_percentage_def cvtColor_def bind_exn_def Let_def
      split: prod.splits if_splits)

text \<open>
  C6. The claim: for every image, colour range and region \<open>extract_bar_percentage\<close>
  returns a value in [0, 100], and for a region of area 0 it returns 0 without an
  error. On the code a region of area 0 crops the image to an array without elements,
  \<open>cv2.cvtColor\<close> rejects it, and the method raises before it reaches the test
  \<open>total_pixels > 0\<close> that guards the division: it never returns 0 for such a region.
\<close>

theorem extract_bar_percentage_zero_area_raises:
  "width * height = 0 \<Longrightarrow>
   extract_bar_percentage bgr2hsv img color_range (x, y, width, height)
     = Inl (Exn CvError ''(-215:Assertion failed) !_src.empty() in function cvtColor'')"
  using crop_zero_area[of width height img x y]
  by (simp add: extract_bar_percentage_def cvtColor_def bind_exn_def Let_def del: mult_eq_0_iff)

theorem extract_bar_percentage_zero_area_raises_witness:
  "(0::int) * 20 = 0 \<and>
   extract_bar_percentage sample_bgr2hsv green_strip ((40, 120, 70), (80, 255, 255)) (0, 0, 0, 20)
     = Inl (Exn CvError ''(-215:Assertion failed) !_src.empty() in function cvtColor'')"
proof -
  have h: "(0::int) * 20 = 0" by simp
  show ?thesis
    using extract_bar_percentage_zero_area_raises[OF h, of sample_bgr2hsv green_strip
        "((40, 120, 70), (80, 255, 255))" 0 0]
    by simp
qed

text \<open>
  C7. \<open>get_health_percentage\<close> is the maximum of the extraction with the green range
  and the extraction with the red range, both over the health-bar region of the one
  screenshot it took: green 75 and red 0 give 75, green 0 and red 60 give 60.
\<close>

theorem get_health_percentage_is_max:
  assumes "map_of (ui_regions m) ''health_bar'' = Some health_region"
    and "map_of (color_ranges m) ''health_green'' = Some green_range"
    and "map_of (color_ranges m) ''health_red'' = Some red_range"
    and "extract_bar_percentage bgr2hsv screenshot green_range health_region = Inr green_health"
    and "extract_bar_percentage bgr2hsv screenshot red_range health_region = Inr red_health"
  shows "get_health_percentage bgr2hsv screenshot m = Inr (max green_health red_health)"
  using assms by (simp add: get_health_percentage_def dict_getitem_def bind_exn_def)

lemma green_strip_green:
  "extract_bar_percentage sample_bgr2hsv green_strip ((40, 120, 70), (80, 255, 255)) (0, 0, 4, 1) = Inr 75"
  by (simp add: extract_bar_percentage_def green_strip_def crop_def py_slice_def slice_index_def
      cvtColor_def sample_bgr2hsv_def inRange_def countNonZero_def bind_exn_def Let_def)

lemma green_strip_red:
  "extract_bar_percentage sample_bgr2hsv green_strip ((0, 120, 70), (10, 255, 255)) (0, 0, 4, 1) = Inr 0"
  by (simp add: extract_bar_percentage_def green_strip_def crop_def py_slice_def slice_index_def
      cvtColor_def sample_bgr2hsv_def inRange_def countNonZero_def bind_exn_def Let_def)

lemma red_strip_green:
  "extract_bar_percentage sample_bgr2hsv red_strip ((40, 120, 70), (80, 255, 255)) (0, 0, 5, 1) = Inr 0"
  by (simp add: extract_bar_percentage_def red_strip_def crop_def py_slice_def slice_index_def
      cvtColor_def sample_bgr2hsv_def inRange_def countNonZero_def bind_exn_def Let_def)

lemma red_strip_red:
  "extract_bar_percentage sample_bgr2hsv red_strip ((0, 120, 70), (10, 255, 255)) (0, 0, 5, 1) = Inr 60"
  by (simp add: extract_bar_percentage_def red_strip_def crop_def py_slice_def slice_index_def
      cvtColor_def sample_bgr2hsv_def inRange_def countNonZero_def bind_exn_def Let_def)

theorem get_health_percentage_is_max_witness:
  "get_health_percentage sample_bgr2hsv green_strip (strip_monitor 4) = Inr 75 \<and>
   get_health_percentage sample_bgr2hsv red_strip (strip_monitor 5) = Inr 60"
proof -
  have region: "map_of (ui_regions (strip_monitor n)) ''health_bar'' = Some (0, 0, n, 1)" for n
    by (simp add: strip_monitor_def)
  have green: "map_of (color_ranges (strip_monitor n)) ''health_green''
                 = Some ((40, 120, 70), (80, 255, 255))" for n
    by (simp add: strip_monitor_def GameStateMonitor_init_def)
  have red: "map_of (color_ranges (strip_monitor n)) ''health_red''
               = Some ((0, 120, 70), (10, 255, 255))" for n
    by (simp add: strip_monitor_def GameStateMonitor_init_def)
  show ?thesis
    using get_health_percentage_is_max[OF region green red green_strip_green green_strip_red]
      get_health_percentage_is_max[OF region green red red_strip_green red_strip_red]
    by simp
qed


section \<open>The combat heuristic\<close>

text \<open>The first call finds no baseline, returns False and stores the endurance it saw.\<close>

lemma detect_combat_state_first:
  "last_endurance m = None \<Longrightarrow>
   detect_combat_state e m = (False, m\<lparr>last_endurance := Some e\<rparr>)"
  by (simp add: detect_combat_state_def)

text \<open>The second call compares with the endurance of the first.\<close>

lemma detect_combat_state_second:
  "last_endurance m = None \<Longrightarrow>
   detect_combat_calls [e1, e2] m = [False, e1 - e2 > 5]"
  by (simp add: detect_combat_state_def)

text \<open>
  A call compares with the stored baseline, and a call that returns True leaves the
  baseline as it was.
\<close>

lemma detect_combat_state_baseline:
  "last_endurance m = Some b \<Longrightarrow>
   detect_combat_state e m = (if b - e > 5 then (True, m) else (False, m\<lparr>last_endurance := Some e\<rparr>))"
  by (simp add: detect_combat_state_def)

text \<open>
  C5. The claim: the first call returns False, and every later call returns True
  exactly when the endurance has dropped by more than 5 since the call right before
  it. On the code the third of the calls that observe 80, 70 and 70 returns True,
  though the endurance has not changed since the second: the second call returned True
  before it stored its reading, so the third still compares with 80.
\<close>

theorem detect_combat_state_stale_baseline:
  "detect_combat_calls [80, 70, 70] GameStateMonitor_init = [False, True, True]"
  by (simp add: detect_combat_state_def GameStateMonitor_init_def)


section \<open>Calibration\<close>

lemma py_int_div2: "py_int (real_of_int x / 2) = halve x"
proof (cases "0 \<le> x")
  case True
  have "\<lfloor>real_of_int x / real_of_int 2\<rfloor> = x div 2" by (rule floor_divide_of_int_eq)
  with True show ?thesis by (simp add: py_int_def halve_def)
next
  case False
  have "\<lfloor>real_of_int (- x) / real_of_int 2\<rfloor> = (- x) div 2" by (rule floor_divide_of_int_eq)
  then have "\<lceil>real_of_int x / 2\<rceil> = - ((- x) div 2)" by (simp add: ceiling_def)
  with False show ?thesis by (simp add: py_int_def halve_def)
qed

lemma calibrate_ui_regions_half:
  "calibrate_ui_regions (960, 540) m =
     m\<lparr>ui_regions := map (\<lambda>(name, r). (name, halve_region r)) (ui_regions m)\<rparr>"
  by (simp add: calibrate_ui_regions_def Let_def halve_region_def py_int_div2 split_def)

text \<open>
  C4, as claimed: calibrating twice with the same resolution leaves the regions as
  calibrating once does. On the code the second calibration to half the reference
  resolution halves the halved regions again.
\<close>

theorem calibrate_ui_regions_twice_counterexample:
  "map_of (ui_regions (calibrate_ui_regions (960, 540) GameStateMonitor_init)) ''health_bar''
     = Some (25, 25, 100, 10) \<and>
   map_of (ui_regions (calibrate_ui_regions (960, 540)
       (calibrate_ui_regions (960, 540) GameStateMonitor_init))) ''health_bar''
     = Some (12, 12, 50, 5)"
  by (simp add: calibrate_ui_regions_half GameStateMonitor_init_def halve_region_def halve_def)

text \<open>
  C4, amended. Calibrating to half the reference resolution replaces the stored
  regions by the regions with every x, y, width and height halved (truncated towards
  zero) and changes nothing else of the monitor. A calibration rescales the regions
  that are stored when it is called: a second calibration to half the reference
  resolution halves the halved regions again, so two calibrations leave every
  coordinate halved twice.
\<close>

theorem calibrate_ui_regions_rescales_stored:
  "calibrate_ui_regions (960, 540) m =
     m\<lparr>ui_regions := map (\<lambda>(name, r). (name, halve_region r)) (ui_regions m)\<rparr> \<and>
   calibrate_ui_regions (960, 540) (calibrate_ui_regions (960, 540) m) =
     m\<lparr>ui_regions := map (\<lambda>(name, r). (name, halve_region (halve_region r))) (ui_regions m)\<rparr>"
proof (intro conjI)
  show "calibrate_ui_regions (960, 540) m =
     m\<lparr>ui_regions := map (\<lambda>(name, r). (name, halve_region r)) (ui_regions m)\<rparr>"
    by (rule calibrate_ui_regions_half)
  show "calibrate_ui_regions (960, 540) (calibrate_ui_regions (960, 540) m) =
     m\<lparr>ui_regions := map (\<lambda>(name, r). (name, halve_region (halve_region r))) (ui_regions m)\<rparr>"
    by (simp add: calibrate_ui_regions_half split_def comp_def)
qed


section \<open>The inference call\<close>

lemma response_text_call_failure:
  "invoke_model env prompt (content_image image_data) = Inl e \<Longrightarrow>
   response_text env prompt image_data = Inl e"
  by (simp add: response_text_def bind_exn_def)

text \<open>An exception from inside the \<open>try\<close>: the default decision after the line is printed.\<close>

lemma call_nova_response_failure:
  "response_text env prompt image_data = Inl e \<Longrightarrow>
   console env (''Nova API error: '' @ str_exn e) = None \<Longrightarrow>
   call_nova_with_image env prompt image_data = Inr (api_error_decision e)"
  by (simp add: call_nova_with_image_def bind_exn_def)

text \<open>The same exception when the line cannot be printed: the exception of \<open>print\<close> leaves.\<close>

lemma call_nova_print_failure:
  "response_text env prompt image_data = Inl e \<Longrightarrow>
   console env (''Nova API error: '' @ str_exn e) = Some print_error \<Longrightarrow>
   call_nova_with_image env prompt image_data = Inl print_error"
  by (simp add: call_nova_with_image_def bind_exn_def)

lemma call_nova_parse_failure:
  "response_text env prompt image_data = Inr (JStr t) \<Longrightarrow> json_loads env t = Inl e \<Longrightarrow>
   exn_class_of e = JSONDecodeError \<Longrightarrow>
   call_nova_with_image env prompt image_data = Inr parse_failure_decision"
  by (simp add: call_nova_with_image_def bind_exn_def loads_value_def)

text \<open>A reply text that \<open>json.loads\<close> accepts is returned as it was parsed.\<close>

lemma call_nova_parsed:
  "response_text env prompt image_data = Inr (JStr t) \<Longrightarrow> json_loads env t = Inr v \<Longrightarrow>
   call_nova_with_image env prompt image_data = Inr v"
  by (simp add: call_nova_with_image_def bind_exn_def loads_value_def)

lemma call_nova_raises_only_from_print:
  "(\<forall>e. console env (''Nova API error: '' @ str_exn e) = None) \<Longrightarrow>
   \<not> isl (call_nova_with_image env prompt image_data)"
  by (simp add: call_nova_with_image_def split: sum.splits)

lemma response_text_dance:
  "response_text (sample_env (Inr (response_body dance_reply))) p None = Inr (JStr dance_reply)"
  by (simp add: response_text_def sample_env_def sample_loads_def bind_exn_def response_value_def
      dict_getitem_def content_image_def)

lemma response_text_prose:
  "response_text (sample_env (Inr (response_body prose_reply))) p None = Inr (JStr prose_reply)"
  by (simp add: response_text_def sample_env_def sample_loads_def bind_exn_def response_value_def
      dict_getitem_def content_image_def response_body_def dance_reply_def prose_reply_def
      json_text_escape_def)

lemma response_text_nan:
  "response_text (sample_env (Inr (response_body nan_reply))) p None = Inr (JStr nan_reply)"
  by (simp add: response_text_def sample_env_def sample_loads_def bind_exn_def response_value_def
      dict_getitem_def content_image_def response_body_def dance_reply_def prose_reply_def
      nan_reply_def json_text_escape_def)

lemma json_loads_prose:
  "json_loads (sample_env outcome) prose_reply
     = Inl (Exn JSONDecodeError ''Expecting value: line 1 column 1 (char 0)'')"
  by (simp add: sample_env_def sample_loads_def response_body_def dance_reply_def prose_reply_def
      nan_reply_def json_text_escape_def)

lemma json_loads_dance:
  "json_loads (sample_env outcome) dance_reply
     = Inr (JObj [(''action'', JStr ''dance''), (''reason'', JStr ''morale'')])"
  by (simp add: sample_env_def sample_loads_def response_body_def dance_reply_def prose_reply_def
      json_text_escape_def)

lemma json_loads_nan: "json_loads (sample_env outcome) nan_reply = Inr JNaN"
  by (simp add: sample_env_def sample_loads_def response_body_def dance_reply_def prose_reply_def
      nan_reply_def json_text_escape_def)

lemma console_accent:
  "console (sample_env outcome) (''Nova API error: '' @ str_exn accent_failure)
     = Some (Exn UnicodeEncodeError ''ascii codec can not encode character: ordinal not in range(128)'')"
  by (simp add: sample_env_def ascii_console_def accent_failure_def)

lemma console_offline:
  "console offline_env (''Nova API error: '' @ ''Could not connect to the endpoint URL'') = None"
  by (simp add: offline_env_def sample_env_def ascii_console_def)

text \<open>
  C1, as claimed: on every call failure and on every reply text that is not valid JSON
  \<open>call_nova_with_image\<close> returns the default decision with the action "rest", and it
  never raises. On the code the reply NaN, which is not JSON and which \<open>json.loads\<close>
  accepts, comes back as the float nan; and a call failure whose message the console
  cannot encode makes the \<open>print\<close> of the handler raise UnicodeEncodeError, which leaves
  the function.
\<close>

theorem call_nova_with_image_counterexample:
  "call_nova_with_image (sample_env (Inr (response_body nan_reply))) ''prompt'' None = Inr JNaN \<and>
   call_nova_with_image (sample_env (Inl accent_failure)) ''prompt'' None
     = Inl (Exn UnicodeEncodeError ''ascii codec can not encode character: ordinal not in range(128)'')"
proof
  show "call_nova_with_image (sample_env (Inr (response_body nan_reply))) ''prompt'' None = Inr JNaN"
    by (rule call_nova_parsed[OF response_text_nan json_loads_nan])
next
  have "response_text (sample_env (Inl accent_failure)) ''prompt'' None = Inl accent_failure"
    by (rule response_text_call_failure) (simp add: sample_env_def)
  then show "call_nova_with_image (sample_env (Inl accent_failure)) ''prompt'' None
     = Inl (Exn UnicodeEncodeError ''ascii codec can not encode character: ordinal not in range(128)'')"
    by (rule call_nova_print_failure) (rule console_accent)
qed

text \<open>
  C1, amended. On a call failure (the remote invocation raises an exception) whose line
  "Nova API error: ..." the \<open>print\<close> of the handler writes, and on a parse failure as
  the code takes it (\<open>json.loads\<close> raises JSONDecodeError on the reply text),
  \<open>call_nova_with_image\<close> returns the default decision: the action is "rest" and the
  reason is the text "API error: " followed by the message of the exception, or the
  text "Failed to parse AI response", not empty in either case. As long as that
  \<open>print\<close> writes its line, no exception leaves the function.
\<close>

theorem call_nova_with_image_degrades_to_rest:
  "(\<forall>e. invoke_model env prompt (content_image image_data) = Inl e \<and>
        console env (''Nova API error: '' @ str_exn e) = None \<longrightarrow>
        ''API error: '' @ str_exn e \<noteq> [] \<and>
        call_nova_with_image env prompt image_data =
          Inr (JObj [(''action'', JStr ''rest''), (''reason'', JStr (''API error: '' @ str_exn e))])) \<and>
   (\<forall>t e. response_text env prompt image_data = Inr (JStr t) \<and> json_loads env t = Inl e \<and>
          exn_class_of e = JSONDecodeError \<longrightarrow>
          call_nova_with_image env prompt image_data =
            Inr (JObj [(''action'', JStr ''rest''), (''reason'', JStr ''Failed to parse AI response'')])) \<and>
   ((\<forall>e. console env (''Nova API error: '' @ str_exn e) = None) \<longrightarrow>
      \<not> isl (call_nova_with_image env prompt image_data))"
proof (intro conjI allI impI)
  fix e
  assume a: "invoke_model env prompt (content_image image_data) = Inl e \<and>
        console env (''Nova API error: '' @ str_exn e) = None"
  show "''API error: '' @ str_exn e \<noteq> []" by simp
  from a have "response_text env prompt image_data = Inl e"
    by (simp add: response_text_call_failure)
  with a have "call_nova_with_image env prompt image_data = Inr (api_error_decision e)"
    by (simp add: call_nova_response_failure)
  then show "call_nova_with_image env prompt image_data =
          Inr (JObj [(''action'', JStr ''rest''), (''reason'', JStr (''API error: '' @ str_exn e))])"
    by (simp add: api_error_decision_def)
next
  fix t e
  assume "response_text env prompt image_data = Inr (JStr t) \<and> json_loads env t = Inl e \<and>
          exn_class_of e = JSONDecodeError"
  then have "call_nova_with_image env prompt image_data = Inr parse_failure_decision"
    by (simp add: call_nova_parse_failure)
  then show "call_nova_with_image env prompt image_data =
            Inr (JObj [(''action'', JStr ''rest''), (''reason'', JStr ''Failed to parse AI response'')])"
    by (simp add: parse_failure_decision_def)
next
  assume "\<forall>e. console env (''Nova API error: '' @ str_exn e) = None"
  then show "\<not> isl (call_nova_with_image env prompt image_data)"
    by (rule call_nova_raises_only_from_print)
qed

theorem call_nova_with_image_degrades_to_rest_witness:
  "invoke_model offline_env ''prompt'' (content_image None)
     = Inl (Exn OtherException ''Could not connect to the endpoint URL'') \<and>
   console offline_env (''Nova API error: '' @ ''Could not connect to the endpoint URL'') = None \<and>
   call_nova_with_image offline_env ''prompt'' None
     = Inr (JObj [(''action'', JStr ''rest''),
                  (''reason'', JStr ''API error: Could not connect to the endpoint URL'')]) \<and>
   response_text (sample_env (Inr (response_body prose_reply))) ''prompt'' None
     = Inr (JStr prose_reply) \<and>
   json_loads (sample_env (Inr (response_body prose_reply))) prose_reply
     = Inl (Exn JSONDecodeError ''Expecting value: line 1 column 1 (char 0)'') \<and>
   call_nova_with_image (sample_env (Inr (response_body prose_reply))) ''prompt'' None
     = Inr (JObj [(''action'', JStr ''rest''), (''reason'', JStr ''Failed to parse AI response'')]) \<and>
   \<not> isl (call_nova_with_image (unicode_env (Inl accent_failure)) ''prompt'' None)"
proof -
  have call_fails: "invoke_model offline_env ''prompt'' (content_image None)
     = Inl (Exn OtherException ''Could not connect to the endpoint URL'')"
    by (simp add: offline_env_def sample_env_def)
  have printed: "console offline_env (''Nova API error: '' @
      str_exn (Exn OtherException ''Could not connect to the endpoint URL'')) = None"
    using console_offline by simp
  have reply: "response_text (sample_env (Inr (response_body prose_reply))) ''prompt'' None
                 = Inr (JStr prose_reply)"
    by (rule response_text_prose)
  have parse_fails: "json_loads (sample_env (Inr (response_body prose_reply))) prose_reply
     = Inl (Exn JSONDecodeError ''Expecting value: line 1 column 1 (char 0)'')"
    by (rule json_loads_prose)
  have writes: "\<forall>e. console (unicode_env (Inl accent_failure)) (''Nova API error: '' @ str_exn e) = None"
    by (simp add: unicode_env_def)
  have offline: "call_nova_with_image offline_env ''prompt'' None
     = Inr (JObj [(''action'', JStr ''rest''),
                  (''reason'', JStr ''API error: Could not connect to the endpoint URL'')])"
    using call_nova_with_image_degrades_to_rest[of offline_env "''prompt''" None] call_fails printed
    by auto
  have prose: "call_nova_with_image (sample_env (Inr (response_body prose_reply))) ''prompt'' None
     = Inr (JObj [(''action'', JStr ''rest''), (''reason'', JStr ''Failed to parse AI response'')])"
    using call_nova_with_image_degrades_to_rest[of "sample_env (Inr (response_body prose_reply))"
        "''prompt''" None] reply parse_fails
    by auto
  have returns: "\<not> isl (call_nova_with_image (unicode_env (Inl accent_failure)) ''prompt'' None)"
    using call_nova_with_image_degrades_to_rest[of "unicode_env (Inl accent_failure)"
        "''prompt''" None] writes
    by blast
  from call_fails console_offline offline reply parse_fails prose returns show ?thesis by simp
qed


section \<open>Scenario classification\<close>

lemma py_less_num: "num_of v = Some r \<Longrightarrow> py_less v bound = Inr (r < bound)"
  by (cases v) (simp_all add: py_less_def)

text \<open>
  C2. For statistics that hold numbers for health and endurance and booleans for the two
  flags, \<open>analyze_game_state\<close> returns a scenario, by the first rule that matches:
  recovery when health < 30 or endurance < 20, whatever the flags; else combat when
  one of the flags holds; else exploration.
\<close>

theorem analyze_game_state_priority:
  assumes "map_of stats ''health'' = Some hv" and "num_of hv = Some health"
    and "map_of stats ''endurance'' = Some ev" and "num_of ev = Some endurance"
    and "map_of stats ''in_combat'' = Some (JBool in_combat)"
    and "map_of stats ''enemy_targeted'' = Some (JBool enemy_targeted)"
  shows "analyze_game_state stats =
           Inr (if health < 30 \<or> endurance < 20 then ''recovery''
                else if in_combat \<or> enemy_targeted then ''combat''
                else ''exploration'')"
  using assms by (simp add: analyze_game_state_def dict_get_def py_less_num bind_exn_def)

theorem analyze_game_state_priority_witness:
  "analyze_game_state (stats_of (JInt 20) (JInt 50) True True) = Inr ''recovery'' \<and>
   analyze_game_state (stats_of (JInt 20) (JInt 50) False False) = Inr ''recovery'' \<and>
   analyze_game_state (stats_of (JInt 80) (JInt 80) True False) = Inr ''combat'' \<and>
   analyze_game_state (stats_of (JInt 80) (JInt 80) False False) = Inr ''exploration''"
proof -
  have f: "map_of (stats_of h e c t) ''health'' = Some h"
    "map_of (stats_of h e c t) ''endurance'' = Some e"
    "map_of (stats_of h e c t) ''in_combat'' = Some (JBool c)"
    "map_of (stats_of h e c t) ''enemy_targeted'' = Some (JBool t)" for h e c t
    by (simp_all add: stats_of_def)
  have n: "num_of (JInt 20) = Some 20" "num_of (JInt 50) = Some 50" "num_of (JInt 80) = Some 80"
    by simp_all
  show ?thesis
    using analyze_game_state_priority[OF f(1) n(1) f(2) n(2) f(3) f(4), of True True]
      analyze_game_state_priority[OF f(1) n(1) f(2) n(2) f(3) f(4), of False False]
      analyze_game_state_priority[OF f(1) n(3) f(2) n(3) f(3) f(4), of True False]
      analyze_game_state_priority[OF f(1) n(3) f(2) n(3) f(3) f(4), of False False]
    by simp
qed

text \<open>
  C10. A key that the statistics lack counts as its default: health 100, endurance 100,
  in_combat False, enemy_targeted False. The empty dictionary is classified as
  exploration, without an error.
\<close>

theorem analyze_game_state_defaults:
  "(map_of stats ''health'' = None \<longrightarrow>
      analyze_game_state stats = analyze_game_state ((''health'', JInt 100) # stats)) \<and>
   (map_of stats ''endurance'' = None \<longrightarrow>
      analyze_game_state stats = analyze_game_state ((''endurance'', JInt 100) # stats)) \<and>
   (map_of stats ''in_combat'' = None \<longrightarrow>
      analyze_game_state stats = analyze_game_state ((''in_combat'', JBool False) # stats)) \<and>
   (map_of stats ''enemy_targeted'' = None \<longrightarrow>
      analyze_game_state stats = analyze_game_state ((''enemy_targeted'', JBool False) # stats)) \<and>
   analyze_game_state [] = Inr ''exploration''"
  by (simp add: analyze_game_state_def dict_get_def py_less_def bind_exn_def)

theorem analyze_game_state_defaults_witness:
  "analyze_game_state [] = analyze_game_state (stats_of (JInt 100) (JInt 100) False False) \<and>
   analyze_game_state [] = Inr ''exploration'' \<and>
   analyze_game_state [(''in_combat'', JBool True)] = Inr ''combat'' \<and>
   analyze_game_state [(''health'', JInt 10)] = Inr ''recovery''"
  using analyze_game_state_defaults[of "[]"]
    analyze_game_state_defaults[of "[(''in_combat'', JBool True)]"]
    analyze_game_state_defaults[of "[(''health'', JInt 10)]"]
  by (simp add: analyze_game_state_def dict_get_def py_less_def bind_exn_def stats_of_def)


section \<open>The decision\<close>

lemma calm_cycle_stats: "cycle_stats calm_observation GameStateMonitor_init = calm_stats"
  by (simp add: cycle_stats_def calm_observation_def calm_stats_def dict_set_def
      detect_combat_state_def GameStateMonitor_init_def)

lemma calm_scenario: "analyze_game_state calm_stats = Inr ''exploration''"
  by (simp add: analyze_game_state_def calm_stats_def dict_get_def py_less_def bind_exn_def)

lemma call_nova_dance:
  "call_nova_with_image (sample_env (Inr (response_body dance_reply))) p None
     = Inr (JObj [(''action'', JStr ''dance''), (''reason'', JStr ''morale'')])"
  by (simp add: call_nova_with_image_def response_text_dance json_loads_dance bind_exn_def loads_value_def)

lemma sample_screenshot: "screenshot_data calm_observation = None"
  by (simp add: calm_observation_def)

lemma make_decision_dance:
  "fst (make_gameplay_decision (sample_env (Inr (response_body dance_reply))) calm_observation
          GameStateMonitor_init) = Inr dance_decision"
  by (simp add: make_gameplay_decision_def calm_cycle_stats calm_scenario Let_def bind_exn_def
      decision_prompts_def dict_getitem_def call_nova_dance sample_screenshot dance_decision_def
      dict_set_def)
    (simp add: calm_observation_def)

lemma analyze_game_state_scenarios:
  "analyze_game_state stats = Inr scenario \<Longrightarrow>
   scenario = ''recovery'' \<or> scenario = ''combat'' \<or> scenario = ''exploration''"
  by (auto simp: analyze_game_state_def bind_exn_def Let_def split: sum.splits if_splits)

lemma map_of_dict_set: "map_of (dict_set d k v) = (map_of d)(k \<mapsto> v)"
  by (simp add: dict_set_def update_conv')

text \<open>
  C3, as claimed: the action of every decision belongs to the allowed set of the
  decision's scenario, and an action outside it is replaced by the default. On the code
  a reply that names the action dance in the scenario exploration comes back as the
  decision, with the action dance.
\<close>

theorem make_gameplay_decision_out_of_vocabulary_counterexample:
  "fst (make_gameplay_decision (sample_env (Inr (response_body dance_reply))) calm_observation
          GameStateMonitor_init) = Inr dance_decision \<and>
   action_of dance_decision = Some (JStr ''dance'') \<and>
   scenario_of dance_decision = Some (JStr ''exploration'') \<and>
   \<not> action_allowed dance_decision"
  by (simp add: make_decision_dance)
     (simp add: dance_decision_def action_of_def scenario_of_def action_allowed_def
      decision_prompts_def dict_get_def)

text \<open>
  C3, amended. A decision that \<open>make_gameplay_decision\<close> produces from a reply
  dictionary of \<open>call_nova_with_image\<close> is that dictionary with the scenario, the
  game state and the timestamp stored in it: its scenario is the one that
  \<open>analyze_game_state\<close> computed, and its action is the action of the reply, unchanged
  and unchecked. When the action of the reply is "rest", as in the default decisions
  for a failed call or parse, it belongs to the allowed set of the scenario.
\<close>

theorem make_gameplay_decision_keeps_reply_action:
  assumes "analyze_game_state (cycle_stats obs m) = Inr scenario"
    and "call_nova_with_image env (format_prompt env scenario (cycle_stats obs m))
           (screenshot_data obs) = Inr (JObj reply)"
  shows "\<exists>decision.
           fst (make_gameplay_decision env obs m) = Inr (JObj decision) \<and>
           decision = dict_set (dict_set (dict_set reply ''scenario'' (JStr scenario))
                        ''game_state'' (JObj (cycle_stats obs m))) ''timestamp'' (JFloat (now obs)) \<and>
           map_of decision ''scenario'' = Some (JStr scenario) \<and>
           map_of decision ''action'' = map_of reply ''action'' \<and>
           (map_of reply ''action'' = Some (JStr ''rest'') \<longrightarrow> action_allowed (JObj decision))"
proof -
  from analyze_game_state_scenarios[OF assms(1)]
  have sc: "scenario = ''recovery'' \<or> scenario = ''combat'' \<or> scenario = ''exploration''" .
  then have prompt: "\<exists>acts. dict_getitem decision_prompts scenario = Inr acts"
    by (auto simp: dict_getitem_def decision_prompts_def)
  from sc have rest: "''rest'' \<in> set (dict_get decision_prompts scenario [])"
    by (auto simp: dict_get_def decision_prompts_def)
  let ?d = "dict_set (dict_set (dict_set reply ''scenario'' (JStr scenario))
              ''game_state'' (JObj (cycle_stats obs m))) ''timestamp'' (JFloat (now obs))"
  from prompt obtain acts where acts: "dict_getitem decision_prompts scenario = Inr acts" by blast
  have run: "fst (make_gameplay_decision env obs m) = Inr (JObj ?d)"
    by (simp add: make_gameplay_decision_def Let_def assms acts bind_exn_def)
  have s: "map_of ?d ''scenario'' = Some (JStr scenario)"
    by (simp add: map_of_dict_set)
  have a: "map_of ?d ''action'' = map_of reply ''action''"
    by (simp add: map_of_dict_set)
  have al: "map_of reply ''action'' = Some (JStr ''rest'') \<longrightarrow> action_allowed (JObj ?d)"
    using rest by (simp add: action_allowed_def action_of_def scenario_of_def a s)
  from run s a al show ?thesis by blast
qed

theorem make_gameplay_decision_keeps_reply_action_witness:
  "analyze_game_state (cycle_stats calm_observation GameStateMonitor_init) = Inr ''exploration'' \<and>
   call_nova_with_image offline_env
       (format_prompt offline_env ''exploration'' (cycle_stats calm_observation GameStateMonitor_init))
       (screenshot_data calm_observation)
     = Inr (JObj [(''action'', JStr ''rest''),
                  (''reason'', JStr ''API error: Could not connect to the endpoint URL'')]) \<and>
   fst (make_gameplay_decision offline_env calm_observation GameStateMonitor_init)
     = Inr (JObj offline_decision) \<and>
   action_allowed (JObj offline_decision)"
proof -
  have sc: "analyze_game_state (cycle_stats calm_observation GameStateMonitor_init) = Inr ''exploration''"
    by (simp add: calm_cycle_stats calm_scenario)
  have reply: "call_nova_with_image offline_env
       (format_prompt offline_env ''exploration'' (cycle_stats calm_observation GameStateMonitor_init))
       (screenshot_data calm_observation)
     = Inr (JObj [(''action'', JStr ''rest''),
                  (''reason'', JStr ''API error: Could not connect to the endpoint URL'')])"
    by (simp add: offline_env_def sample_env_def call_nova_with_image_def response_text_def
        bind_exn_def api_error_decision_def ascii_console_def)
  have d: "dict_set (dict_set (dict_set
             [(''action'', JStr ''rest''),
              (''reason'', JStr ''API error: Could not connect to the endpoint URL'')]
             ''scenario'' (JStr ''exploration''))
             ''game_state'' (JObj (cycle_stats calm_observation GameStateMonitor_init)))
             ''timestamp'' (JFloat (now calm_observation)) = offline_decision"
    by (simp add: dict_set_def offline_decision_def calm_cycle_stats) (simp add: calm_observation_def)
  from make_gameplay_decision_keeps_reply_action[OF sc reply] d
  have "fst (make_gameplay_decision offline_env calm_observation GameStateMonitor_init)
          = Inr (JObj offline_decision) \<and> action_allowed (JObj offline_decision)"
    by auto
  with sc reply show ?thesis by simp
qed


section \<open>The dispatcher\<close>

text \<open>
  C8. For a decision whose action is outside the dispatcher's vocabulary,
  \<open>execute_decision\<close> returns False, raises nothing and issues no event at all: no key
  press, key down or key up (and no wait).
\<close>

theorem execute_decision_unknown_action:
  "dict_get decision ''action'' (JStr ''rest'') \<notin> JStr ` set known_actions \<Longrightarrow>
   execute_decision decision = (Inr False, [])"
  by (simp add: execute_decision_def known_actions_def try_except_def ret_def Let_def)

theorem execute_decision_unknown_action_witness:
  "dict_get [(''action'', JStr ''dance''), (''reason'', JStr ''morale'')] ''action'' (JStr ''rest'')
     \<notin> JStr ` set known_actions \<and>
   execute_decision [(''action'', JStr ''dance''), (''reason'', JStr ''morale'')] = (Inr False, [])"
proof -
  have h: "dict_get [(''action'', JStr ''dance''), (''reason'', JStr ''morale'')] ''action'' (JStr ''rest'')
     \<notin> JStr ` set known_actions"
    by (simp add: dict_get_def known_actions_def)
  show ?thesis using h execute_decision_unknown_action[OF h] by simp
qed

text \<open>The dispatcher on three actions of its vocabulary.\<close>

lemma execute_decision_attack:
  "execute_decision [(''action'', JStr ''attack'')]
     = (Inr True, [Press ''1'', Sleep 1.2, Press ''2'', Sleep 1.5, Press ''3'', Sleep 2.0])"
  by (simp add: execute_decision_def try_except_def ret_def Let_def execute_attack_chain_def
      AttackController_init_def use_ability_def time_sleep_def io_then_def io_bind_def emit_def dict_get_def)

lemma execute_decision_retreat:
  "execute_decision [(''action'', JStr ''retreat'')] = (Inr True, [KeyDown ''s'', Sleep 2, KeyUp ''s''])"
  by (simp add: execute_decision_def try_except_def ret_def raise_def Let_def io_then_def io_bind_def
      dict_get_def move_backward_def hold_key_def lookup_io_def dict_getitem_def MovementController_init_def
      time_sleep_def emit_def)

lemma execute_decision_patrol:
  "execute_decision [(''action'', JStr ''patrol'')] = (Inr False, [])"
  by (simp add: execute_decision_def try_except_def ret_def raise_def Let_def io_then_def io_bind_def
      dict_get_def)


section \<open>Abilities and attack chains\<close>

lemma use_ability_invalid:
  assumes "ability_number \<notin> fst ` set (hotkeys c)"
  shows "use_ability c ability_number w =
     (Inl (Exn ValueError (''Invalid ability number: '' @ str_int ability_number)), [])"
proof -
  from assms have "map_of (hotkeys c) ability_number = None" by (simp add: map_of_eq_None_iff)
  then show ?thesis by (simp add: use_ability_def raise_def)
qed

lemma execute_attack_chain_unknown:
  assumes "chain_name \<notin> fst ` set (attack_chains c)"
  shows "execute_attack_chain c chain_name interrupt =
     (Inl (Exn ValueError (''Unknown attack chain: '' @ chain_name)), [])"
proof -
  from assms have "map_of (attack_chains c) chain_name = None" by (simp add: map_of_eq_None_iff)
  then show ?thesis by (simp add: execute_attack_chain_def raise_def)
qed

lemma use_ability_press:
  "map_of (hotkeys c) k = Some key \<Longrightarrow> use_ability c k False = (Inr (), [Press key])"
  by (simp add: use_ability_def io_then_def io_bind_def emit_def ret_def)

lemma time_sleep_ok: "0 \<le> d \<Longrightarrow> time_sleep d = (Inr (), [Sleep d])"
  by (simp add: time_sleep_def emit_def)

text \<open>
  A run over well-formed steps whose health checks pass goes on; it ends, returning, at
  the first check that reads a health below 20, or at the end of the chain.
\<close>

lemma attack_chain_loop_runs:
  "list_all (well_formed_step c) (take k chain) \<Longrightarrow> k \<le> length chain \<Longrightarrow>
   (\<forall>j<k. check_passes interrupt (i + j)) \<Longrightarrow>
   (k < length chain \<longrightarrow> check_stops interrupt (i + k)) \<Longrightarrow>
   attack_chain_loop c interrupt i chain = (Inr (), chain_events c (take k chain))"
proof (induction chain arbitrary: i k)
  case Nil
  then show ?case by (simp add: ret_def chain_events_def)
next
  case (Cons step rest)
  obtain a w where step: "step = (a, w)" by (cases step)
  show ?case
  proof (cases k)
    case 0
    with Cons.prems have "check_stops interrupt i" by simp
    then show ?thesis
      by (auto simp: 0 step check_stops_def chain_events_def ret_def Let_def
          split: option.splits sum.splits)
  next
    case (Suc k')
    from Cons.prems Suc step have wf: "well_formed_step c (a, w)"
      and rest: "list_all (well_formed_step c) (take k' rest)" and len: "k' \<le> length rest"
      by simp_all
    from wf obtain key where key: "map_of (hotkeys c) a = Some key" and w: "0 \<le> w"
      by (auto simp: well_formed_step_def)
    from Cons.prems(3) Suc have pass: "check_passes interrupt i"
      and later: "\<forall>j<k'. check_passes interrupt (Suc i + j)"
      by force+
    from Cons.prems(4) Suc have stop: "k' < length rest \<longrightarrow> check_stops interrupt (Suc i + k')"
      by simp
    have ih: "attack_chain_loop c interrupt (Suc i) rest = (Inr (), chain_events c (take k' rest))"
      by (rule Cons.IH[OF rest len later stop])
    have body: "io_then (use_ability c a False)
                  (io_then (time_sleep w) (attack_chain_loop c interrupt (Suc i) rest))
                = (Inr (), chain_events c (take k (step # rest)))"
      by (simp add: Suc step use_ability_press[OF key] time_sleep_ok[OF w] ih
          io_then_def io_bind_def chain_events_def dict_get_def key)
    from pass show ?thesis
      by (auto simp: step body[unfolded step] check_passes_def Let_def
          split: option.splits sum.splits)
  qed
qed

lemma list_all_upt: "list_all P [0..<n] = (\<forall>j<n. P j)"
  by (auto simp: list_all_iff)

text \<open>
  Whatever the chain and the health checks, the events of a run are an initial part of
  the chain's presses and waits: a run that stops early has skipped nothing and
  reordered nothing.
\<close>

lemma attack_chain_loop_prefix:
  "prefix (snd (attack_chain_loop c interrupt i chain)) (chain_events c chain)"
proof (induction chain arbitrary: i)
  case Nil
  then show ?case by (simp add: ret_def chain_events_def)
next
  case (Cons step rest)
  obtain k w where step: "step = (k, w)" by (cases step)
  have ih: "prefix (snd (attack_chain_loop c interrupt (Suc i) rest)) (chain_events c rest)"
    by (rule Cons.IH)
  have ev: "chain_events c (step # rest) = Press (dict_get (hotkeys c) k []) # Sleep w # chain_events c rest"
    by (simp add: chain_events_def step)
  have body: "prefix (snd (io_then (use_ability c k False)
                (io_then (time_sleep w) (attack_chain_loop c interrupt (Suc i) rest))))
              (chain_events c (step # rest))"
    using ih
    by (cases "attack_chain_loop c interrupt (Suc i) rest")
       (auto simp: ev use_ability_def time_sleep_def io_then_def io_bind_def emit_def ret_def
          raise_def dict_get_def split: option.splits sum.splits)
  show ?case
    using body
    by (auto simp: step Let_def ret_def raise_def split: option.splits sum.splits)
qed

lemma str_int_10: "str_int 10 = ''10''"
  by code_simp

text \<open>
  C9, as claimed: for a known chain name \<open>execute_attack_chain\<close> presses the slots of the
  chain in their order, each followed by its wait. On the code a health check that
  reads 10 ends the default basic combo before its first press; a registered chain
  with a slot that is no hotkey is pressed up to that slot, where ValueError is raised;
  and a registered chain with a negative wait raises ValueError after its first press.
\<close>

theorem execute_attack_chain_counterexample:
  "execute_attack_chain AttackController_init ''basic_combo'' (Some (\<lambda>i. Inr 10)) = (Inr (), []) \<and>
   execute_attack_chain
       (add_custom_chain AttackController_init ''broken'' [(1, 1.0), (10, 1.0), (2, 1.0)])
       ''broken'' None
     = (Inl (Exn ValueError ''Invalid ability number: 10''), [Press ''1'', Sleep 1.0]) \<and>
   execute_attack_chain
       (add_custom_chain AttackController_init ''rewind'' [(1, - 1.0), (2, 1.0)])
       ''rewind'' None
     = (Inl (Exn ValueError ''sleep length must be non-negative''), [Press ''1''])"
proof (intro conjI)
  show "execute_attack_chain AttackController_init ''basic_combo'' (Some (\<lambda>i. Inr 10)) = (Inr (), [])"
    by (simp add: execute_attack_chain_def AttackController_init_def ret_def)
  show "execute_attack_chain
       (add_custom_chain AttackController_init ''broken'' [(1, 1.0), (10, 1.0), (2, 1.0)])
       ''broken'' None
     = (Inl (Exn ValueError ''Invalid ability number: 10''), [Press ''1'', Sleep 1.0])"
    by (simp add: execute_attack_chain_def add_custom_chain_def dict_set_def AttackController_init_def
        use_ability_def time_sleep_def io_then_def io_bind_def emit_def ret_def raise_def str_int_10)
  show "execute_attack_chain
       (add_custom_chain AttackController_init ''rewind'' [(1, - 1.0), (2, 1.0)])
       ''rewind'' None
     = (Inl (Exn ValueError ''sleep length must be non-negative''), [Press ''1''])"
    by (simp add: execute_attack_chain_def add_custom_chain_def dict_set_def AttackController_init_def
        use_ability_def time_sleep_def io_then_def io_bind_def emit_def ret_def raise_def)
qed

text \<open>
  C9, amended. \<open>use_ability\<close> with a number that is not a configured hotkey, and
  \<open>execute_attack_chain\<close> with a name that is not in the registry, raise ValueError
  at once, with no event issued before it. For a name in the registry the presses and
  waits of \<open>execute_attack_chain\<close> are always an initial part of the chain's sequence, in
  its order, of one press and the wait after it per step. The whole sequence is issued,
  and the call returns, when every step is well formed (its slot is a configured hotkey,
  its wait is not negative) and every health check passes (the check is off, as by
  default, or reads a health of 20 or more, or fails with ImportError). When the
  steps before step \<open>k\<close> are well formed and their checks pass, and the check before
  step \<open>k\<close> reads a health below 20, exactly the presses and waits of the first \<open>k\<close> steps
  are issued and the call returns.
\<close>

theorem invalid_input_raises_and_chain_in_order:
  "(ability_number \<notin> fst ` set (hotkeys c) \<longrightarrow>
      use_ability c ability_number wait_for_animation =
        (Inl (Exn ValueError (''Invalid ability number: '' @ str_int ability_number)), [])) \<and>
   (chain_name \<notin> fst ` set (attack_chains c) \<longrightarrow>
      execute_attack_chain c chain_name interrupt =
        (Inl (Exn ValueError (''Unknown attack chain: '' @ chain_name)), [])) \<and>
   (map_of (attack_chains c) chain_name = Some chain \<longrightarrow>
      prefix (snd (execute_attack_chain c chain_name interrupt)) (chain_events c chain)) \<and>
   (map_of (attack_chains c) chain_name = Some chain \<and> list_all (well_formed_step c) chain \<and>
    list_all (check_passes interrupt) [0..<length chain] \<longrightarrow>
      execute_attack_chain c chain_name interrupt = (Inr (), chain_events c chain)) \<and>
   (map_of (attack_chains c) chain_name = Some chain \<and> k < length chain \<and>
    list_all (well_formed_step c) (take k chain) \<and>
    list_all (check_passes interrupt) [0..<k] \<and> check_stops interrupt k \<longrightarrow>
      execute_attack_chain c chain_name interrupt = (Inr (), chain_events c (take k chain)))"
proof (intro conjI impI)
  assume "ability_number \<notin> fst ` set (hotkeys c)"
  then show "use_ability c ability_number wait_for_animation =
        (Inl (Exn ValueError (''Invalid ability number: '' @ str_int ability_number)), [])"
    by (rule use_ability_invalid)
next
  assume "chain_name \<notin> fst ` set (attack_chains c)"
  then show "execute_attack_chain c chain_name interrupt =
        (Inl (Exn ValueError (''Unknown attack chain: '' @ chain_name)), [])"
    by (rule execute_attack_chain_unknown)
next
  assume "map_of (attack_chains c) chain_name = Some chain"
  then show "prefix (snd (execute_attack_chain c chain_name interrupt)) (chain_events c chain)"
    by (simp add: execute_attack_chain_def attack_chain_loop_prefix)
next
  assume a: "map_of (attack_chains c) chain_name = Some chain \<and> list_all (well_formed_step c) chain \<and>
    list_all (check_passes interrupt) [0..<length chain]"
  then have "attack_chain_loop c interrupt 0 chain = (Inr (), chain_events c (take (length chain) chain))"
    by (intro attack_chain_loop_runs) (simp_all add: list_all_upt)
  with a show "execute_attack_chain c chain_name interrupt = (Inr (), chain_events c chain)"
    by (simp add: execute_attack_chain_def)
next
  assume a: "map_of (attack_chains c) chain_name = Some chain \<and> k < length chain \<and>
    list_all (well_formed_step c) (take k chain) \<and>
    list_all (check_passes interrupt) [0..<k] \<and> check_stops interrupt k"
  then have "attack_chain_loop c interrupt 0 chain = (Inr (), chain_events c (take k chain))"
    by (intro attack_chain_loop_runs) (simp_all add: list_all_upt)
  with a show "execute_attack_chain c chain_name interrupt = (Inr (), chain_events c (take k chain))"
    by (simp add: execute_attack_chain_def)
qed

theorem invalid_input_raises_and_chain_in_order_witness:
  "use_ability AttackController_init 10 True = (Inl (Exn ValueError ''Invalid ability number: 10''), []) \<and>
   execute_attack_chain AttackController_init ''finisher'' None
     = (Inl (Exn ValueError ''Unknown attack chain: finisher''), []) \<and>
   execute_attack_chain AttackController_init ''basic_combo'' None
     = (Inr (), [Press ''1'', Sleep 1.2, Press ''2'', Sleep 1.5, Press ''3'', Sleep 2.0]) \<and>
   execute_attack_chain AttackController_init ''basic_combo'' (Some (\<lambda>i. Inr 100))
     = (Inr (), [Press ''1'', Sleep 1.2, Press ''2'', Sleep 1.5, Press ''3'', Sleep 2.0]) \<and>
   execute_attack_chain AttackController_init ''basic_combo''
       (Some (\<lambda>i. if i = 1 then Inr 10 else Inr 100))
     = (Inr (), [Press ''1'', Sleep 1.2])"
proof -
  have a: "10 \<notin> fst ` set (hotkeys AttackController_init)"
    by (simp add: AttackController_init_def)
  have b: "''finisher'' \<notin> fst ` set (attack_chains AttackController_init)"
    by (simp add: AttackController_init_def)
  have c: "map_of (attack_chains AttackController_init) ''basic_combo'' = Some [(1, 1.2), (2, 1.5), (3, 2.0)]"
    by (simp add: AttackController_init_def)
  have d: "list_all (well_formed_step AttackController_init) [(1, 1.2), (2, 1.5), (3, 2.0)]"
    by (simp add: well_formed_step_def AttackController_init_def)
  have d1: "list_all (well_formed_step AttackController_init) (take 1 [(1, 1.2), (2, 1.5), (3, 2.0)])"
    by (simp add: well_formed_step_def AttackController_init_def)
  have off: "list_all (check_passes None) [0..<length [(1, 1.2), (2, 1.5), (3, 2.0 :: real)]]"
    by (simp add: list_all_upt check_passes_def)
  have healthy: "list_all (check_passes (Some (\<lambda>i. Inr 100)))
                   [0..<length [(1, 1.2), (2, 1.5), (3, 2.0 :: real)]]"
    by (simp add: list_all_upt check_passes_def)
  have hurt: "list_all (check_passes (Some (\<lambda>i. if i = 1 then Inr 10 else Inr 100))) [0..<1]"
    "check_stops (Some (\<lambda>i. if i = 1 then Inr 10 else Inr 100)) 1"
    "(1::nat) < length [(1, 1.2), (2, 1.5), (3, 2.0 :: real)]"
    by (simp_all add: list_all_upt check_passes_def check_stops_def)
  have e: "chain_events AttackController_init [(1, 1.2), (2, 1.5), (3, 2.0)]
             = [Press ''1'', Sleep 1.2, Press ''2'', Sleep 1.5, Press ''3'', Sleep 2.0]"
    by (simp add: chain_events_def AttackController_init_def dict_get_def)
  have e1: "chain_events AttackController_init (take 1 [(1, 1.2), (2, 1.5), (3, 2.0)])
             = [Press ''1'', Sleep 1.2]"
    by (simp add: chain_events_def AttackController_init_def dict_get_def)
  have r1: "use_ability AttackController_init 10 True
              = (Inl (Exn ValueError (''Invalid ability number: '' @ str_int 10)), [])"
    using invalid_input_raises_and_chain_in_order[where c = AttackController_init
        and ability_number = 10 and wait_for_animation = True] a
    by blast
  have r2: "execute_attack_chain AttackController_init ''finisher'' None
              = (Inl (Exn ValueError (''Unknown attack chain: '' @ ''finisher'')), [])"
    using invalid_input_raises_and_chain_in_order[where c = AttackController_init
        and chain_name = "''finisher''" and interrupt = None] b
    by blast
  have r3: "execute_attack_chain AttackController_init ''basic_combo'' None
              = (Inr (), chain_events AttackController_init [(1, 1.2), (2, 1.5), (3, 2.0)])"
    using invalid_input_raises_and_chain_in_order[where c = AttackController_init
        and chain_name = "''basic_combo''" and chain = "[(1, 1.2), (2, 1.5), (3, 2.0)]"
        and interrupt = None] c d off
    by blast
  have r4: "execute_attack_chain AttackController_init ''basic_combo'' (Some (\<lambda>i. Inr 100))
              = (Inr (), chain_events AttackController_init [(1, 1.2), (2, 1.5), (3, 2.0)])"
    using invalid_input_raises_and_chain_in_order[where c = AttackController_init
        and chain_name = "''basic_combo''" and chain = "[(1, 1.2), (2, 1.5), (3, 2.0)]"
        and interrupt = "Some (\<lambda>i. Inr 100)"] c d healthy
    by blast
  have r5: "execute_attack_chain AttackController_init ''basic_combo''
              (Some (\<lambda>i. if i = 1 then Inr 10 else Inr 100))
              = (Inr (), chain_events AttackController_init (take 1 [(1, 1.2), (2, 1.5), (3, 2.0)]))"
    using invalid_input_raises_and_chain_in_order[where c = AttackController_init
        and chain_name = "''basic_combo''" and chain = "[(1, 1.2), (2, 1.5), (3, 2.0)]"
        and interrupt = "Some (\<lambda>i. if i = 1 then Inr 10 else Inr 100)" and k = 1] c d1 hurt
    by blast
  from r1 r2 r3 r4 r5 show ?thesis
    unfolding e e1 str_int_10 by simp
qed

end
